theory Spec2Isabelle
  imports Main
begin

section \<open>JavaScript values\<close>

text \<open>
  The client (\<^verbatim>\<open>src/App.jsx\<close>) is untyped JavaScript: whatever the backend sends is
  stored and tested for truthiness. Response bodies are therefore values of a small
  datatype of JavaScript values. An object is the list of its own properties in
  insertion order (keys distinct, as in a parsed object). Numbers are the integer-valued
  ones below \<open>10^21\<close> in magnitude, which is all that the handlers can tell apart (zero is
  falsy, and \<^verbatim>\<open>String(n)\<close> is the decimal numeral).
\<close>

datatype jsval =
    JUndefined
  | JNull
  | JBool bool
  | JNum int
  | JStr string
  | JArr "jsval list"
  | JObj "(string \<times> jsval) list"

datatype js_error =
    AxiosError  \<comment> \<open>the promise of a request rejected: network failure or status outside 2xx\<close>
  | TypeError   \<comment> \<open>a property read on \<^verbatim>\<open>null\<close> or \<^verbatim>\<open>undefined\<close>\<close>

text \<open>Truthiness, as tested by \<^verbatim>\<open>if (v)\<close>, \<^verbatim>\<open>!v\<close> and \<^verbatim>\<open>v || w\<close>.\<close>

fun truthy :: "jsval \<Rightarrow> bool" where
  "truthy JUndefined = False"
| "truthy JNull = False"
| "truthy (JBool b) = b"
| "truthy (JNum n) = (n \<noteq> 0)"
| "truthy (JStr s) = (s \<noteq> [])"
| "truthy (JArr vs) = True"
| "truthy (JObj kvs) = True"

definition js_or :: "jsval \<Rightarrow> jsval \<Rightarrow> jsval" where
  "js_or a b = (if truthy a then a else b)"

text \<open>
  The property read \<^verbatim>\<open>v.k\<close>, for the four names the client reads (\<^verbatim>\<open>langs\<close>,
  \<^verbatim>\<open>qa_pairs\<close>, \<^verbatim>\<open>token\<close>, \<^verbatim>\<open>answer\<close>): none of them is inherited from a prototype, so
  the read gives the own property of an object, \<^verbatim>\<open>undefined\<close> on every other value with
  properties, and throws on \<^verbatim>\<open>null\<close> and \<^verbatim>\<open>undefined\<close>.
\<close>

fun get_prop :: "jsval \<Rightarrow> string \<Rightarrow> js_error + jsval" where
  "get_prop JUndefined k = Inl TypeError"
| "get_prop JNull k = Inl TypeError"
| "get_prop (JObj kvs) k = Inr (case map_of kvs k of None \<Rightarrow> JUndefined | Some v \<Rightarrow> v)"
| "get_prop (JBool b) k = Inr JUndefined"
| "get_prop (JNum n) k = Inr JUndefined"
| "get_prop (JStr s) k = Inr JUndefined"
| "get_prop (JArr vs) k = Inr JUndefined"

text \<open>\<^verbatim>\<open>String(v)\<close>, the coercion \<^verbatim>\<open>localStorage.setItem\<close> applies to its value.\<close>

fun decimal :: "nat \<Rightarrow> string" where
  "decimal n = (if n < 10 then [char_of (48 + n)]
                else decimal (n div 10) @ [char_of (48 + n mod 10)])"

fun join_comma :: "string list \<Rightarrow> string" where
  "join_comma [] = []"
| "join_comma [s] = s"
| "join_comma (s # t # ss) = s @ '','' @ join_comma (t # ss)"

fun js_to_string :: "jsval \<Rightarrow> string" where
  "js_to_string JUndefined = ''undefined''"
| "js_to_string JNull = ''null''"
| "js_to_string (JBool b) = (if b then ''true'' else ''false'')"
| "js_to_string (JNum n) = (if n < 0 then ''-'' @ decimal (nat (- n)) else decimal (nat n))"
| "js_to_string (JStr s) = s"
| "js_to_string (JArr vs) =
     join_comma (map (\<lambda>v. if v = JUndefined \<or> v = JNull then [] else js_to_string v) vs)"
| "js_to_string (JObj kvs) = ''[object Object]''"

section \<open>Browser and network\<close>

datatype jsfile = File (name: string) (content: "nat list")

datatype blob = Blob (bytes: "nat list") (mime: string)

text \<open>
  \<^verbatim>\<open>URL.createObjectURL\<close> hands out a fresh \<^verbatim>\<open>blob:\<close> URL on every call; the URL is
  the index of the blob in the document's URL store. As a string it is never empty.
\<close>

datatype object_url = ObjectURL nat

datatype http_method = GET | POST

datatype payload =
    NoBody
  | Json jsval
  | FormData "(string \<times> jsfile) list"

record config =
  req_method :: http_method
  baseURL :: string
  url :: string
  headers :: "string \<rightharpoonup> string"
  payload :: payload
  responseType :: "string option"

text \<open>What the awaited promise of a request settles to: rejection, or \<^verbatim>\<open>res.data\<close>.\<close>

datatype 'a response = Rejected | Resolved 'a

text \<open>
  The texts shown by \<^verbatim>\<open>alert\<close>. Some of them hold characters outside ASCII, so
  each text is named here instead of spelled:
  \<^item> \<open>PleaseEnterCredentials\<close>: "Please enter username & password"
  \<^item> \<open>InvalidCredentials\<close>: "Invalid credentials"
  \<^item> \<open>LoginFailed\<close>: "Login failed. Check your credentials."
  \<^item> \<open>PickAFile\<close>: "Pick a file first!"
  \<^item> \<open>FileUploaded\<close>: U+2705 " File uploaded successfully!"
  \<^item> \<open>UploadFailed\<close>: "Upload failed " U+2014 " check backend logs."
  \<^item> \<open>EnterAQuestion\<close>: "Enter a question"
  \<^item> \<open>FailedToGetAnswer\<close>: "Failed to get answer"
  \<^item> \<open>AudioGenerated\<close>: U+1F3A7 " Audio generated successfully!"
  \<^item> \<open>AudioFailed\<close>: "Audio generation failed " U+2014 " check backend logs."
\<close>

datatype notice =
    PleaseEnterCredentials
  | InvalidCredentials
  | LoginFailed
  | PickAFile
  | FileUploaded
  | UploadFailed
  | EnterAQuestion
  | FailedToGetAnswer
  | AudioGenerated
  | AudioFailed

datatype log_arg = Text string | Err js_error

section \<open>Component state\<close>

text \<open>
  The \<^verbatim>\<open>useState\<close> cells of \<^verbatim>\<open>App\<close>, in the order of the source (\<open>file_st\<close> is the
  cell \<^verbatim>\<open>file\<close>).
\<close>

record state =
  file_st :: "jsfile option"
  filename :: "string option"
  question :: string
  answer :: jsval
  qaHistory :: jsval
  langs :: jsval
  selectedLang :: string
  audioUrl :: "object_url option"
  dragOver :: bool
  showLogin :: bool
  isLoggedIn :: bool
  username :: string
  password :: string

text \<open>
  Everything a handler can read or change: the component state, \<^verbatim>\<open>localStorage\<close>, and
  the observable effects in the order they happen (requests handed to the transport,
  alerts, \<^verbatim>\<open>console.error\<close> calls, object URLs created).
\<close>

record world =
  ui :: state
  localStorage :: "string \<rightharpoonup> string"
  network :: "config list"
  alerts :: "notice list"
  console :: "log_arg list list"
  blob_store :: "blob list"

definition initial_state :: state where
  "initial_state =
     \<lparr>file_st = None, filename = None, question = [], answer = JStr [], qaHistory = JArr [],
      langs = JObj [], selectedLang = ''en'', audioUrl = None, dragOver = False,
      showLogin = True, isLoggedIn = False, username = [], password = []\<rparr>"

text \<open>A page load: fresh component state, storage as the previous visit left it.\<close>

definition initial_world :: "(string \<rightharpoonup> string) \<Rightarrow> world" where
  "initial_world storage =
     \<lparr>ui = initial_state, localStorage = storage, network = [], alerts = [], console = [],
      blob_store = []\<rparr>"

section \<open>Transport\<close>

text \<open>
  The request interceptor installed at module level: it reads the token from storage
  when the request is made and, if the token is truthy, sets the \<^verbatim>\<open>Authorization\<close>
  header of the request's configuration.
\<close>

definition interceptor :: "(string \<rightharpoonup> string) \<Rightarrow> config \<Rightarrow> config" where
  "interceptor storage cfg =
     (case storage ''auth_token'' of
        None \<Rightarrow> cfg
      | Some token \<Rightarrow>
          if token \<noteq> [] then cfg\<lparr>headers := (headers cfg)(''Authorization'' \<mapsto> ''Bearer '' @ token)\<rparr>
          else cfg)"

text \<open>
  Every request of the client goes through \<^verbatim>\<open>axios.get\<close> or \<^verbatim>\<open>axios.post\<close> on the
  default instance: the base URL is the configured default, the interceptor runs, and
  the resulting configuration is handed to the network.
\<close>

definition axios_request :: "config \<Rightarrow> world \<Rightarrow> world" where
  "axios_request cfg w = w\<lparr>network := network w @ [interceptor (localStorage w) cfg]\<rparr>"

definition axios_get :: "string \<Rightarrow> world \<Rightarrow> world" where
  "axios_get path =
     axios_request \<lparr>req_method = GET, baseURL = ''http://127.0.0.1:8000'', url = path,
                    headers = Map.empty, payload = NoBody, responseType = None\<rparr>"

definition axios_post ::
  "string \<Rightarrow> payload \<Rightarrow> (string \<rightharpoonup> string) \<Rightarrow> string option \<Rightarrow> world \<Rightarrow> world" where
  "axios_post path body hdrs rt =
     axios_request \<lparr>req_method = POST, baseURL = ''http://127.0.0.1:8000'', url = path,
                    headers = hdrs, payload = body, responseType = rt\<rparr>"

definition alert :: "notice \<Rightarrow> world \<Rightarrow> world" where
  "alert m w = w\<lparr>alerts := alerts w @ [m]\<rparr>"

definition console_error :: "log_arg list \<Rightarrow> world \<Rightarrow> world" where
  "console_error args w = w\<lparr>console := console w @ [args]\<rparr>"

definition setItem :: "string \<Rightarrow> string \<Rightarrow> world \<Rightarrow> world" where
  "setItem k v w = w\<lparr>localStorage := (localStorage w)(k \<mapsto> v)\<rparr>"

definition removeItem :: "string \<Rightarrow> world \<Rightarrow> world" where
  "removeItem k w = w\<lparr>localStorage := (localStorage w)(k := None)\<rparr>"

definition createObjectURL :: "blob \<Rightarrow> world \<Rightarrow> object_url \<times> world" where
  "createObjectURL b w =
     (ObjectURL (length (blob_store w)), w\<lparr>blob_store := blob_store w @ [b]\<rparr>)"

definition resolve_url :: "world \<Rightarrow> object_url \<Rightarrow> blob option" where
  "resolve_url w u =
     (case u of ObjectURL i \<Rightarrow> if i < length (blob_store w) then Some (blob_store w ! i) else None)"

definition set_ui :: "(state \<Rightarrow> state) \<Rightarrow> world \<Rightarrow> world" where
  "set_ui f w = w\<lparr>ui := f (ui w)\<rparr>"

section \<open>The handlers of \<^verbatim>\<open>App\<close>\<close>

text \<open>
  A handler is run to quiescence: the responses of the requests it makes are arguments,
  in the order the requests are made, and every \<^verbatim>\<open>await\<close> continuation runs before
  the next event. Each \<^verbatim>\<open>try\<close> block is a case distinction on what can throw inside it
  (the rejected promise, a property read on \<^verbatim>\<open>null\<close>); the \<^verbatim>\<open>catch\<close> block is
  the error branch.
\<close>

definition fetchLangs :: "jsval response \<Rightarrow> world \<Rightarrow> world" where
  "fetchLangs r w0 =
     (let w = axios_get ''/api/langs'' w0 in
      case r of
        Rejected \<Rightarrow> console_error [Text ''Error fetching langs:'', Err AxiosError] w
      | Resolved d \<Rightarrow>
          (case get_prop d ''langs'' of
             Inl e \<Rightarrow> console_error [Text ''Error fetching langs:'', Err e] w
           | Inr v \<Rightarrow> set_ui (\<lambda>s. s\<lparr>langs := js_or v (JObj [])\<rparr>) w))"

definition fetchHistory :: "jsval response \<Rightarrow> world \<Rightarrow> world" where
  "fetchHistory r w0 =
     (let w = axios_get ''/api/qa-history'' w0 in
      case r of
        Rejected \<Rightarrow> console_error [Text ''Error fetching history:'', Err AxiosError] w
      | Resolved d \<Rightarrow>
          (case get_prop d ''qa_pairs'' of
             Inl e \<Rightarrow> console_error [Text ''Error fetching history:'', Err e] w
           | Inr v \<Rightarrow> set_ui (\<lambda>s. s\<lparr>qaHistory := js_or v (JArr [])\<rparr>) w))"

definition handleLogin ::
  "jsval response \<Rightarrow> jsval response \<Rightarrow> jsval response \<Rightarrow> world \<Rightarrow> world" where
  "handleLogin r rl rh w0 =
     (if username (ui w0) = [] \<or> password (ui w0) = [] then alert PleaseEnterCredentials w0
      else
        let w = axios_post ''/api/login''
                  (Json (JObj [(''username'', JStr (username (ui w0))),
                               (''password'', JStr (password (ui w0)))]))
                  Map.empty None w0
        in case r of
             Rejected \<Rightarrow> console_error [Err AxiosError] (alert LoginFailed w)
           | Resolved d \<Rightarrow>
               (case get_prop d ''token'' of
                  Inl e \<Rightarrow> console_error [Err e] (alert LoginFailed w)
                | Inr token \<Rightarrow>
                    if truthy token then
                      fetchHistory rh
                        (fetchLangs rl
                          (set_ui (\<lambda>s. s\<lparr>showLogin := False\<rparr>)
                            (set_ui (\<lambda>s. s\<lparr>isLoggedIn := True\<rparr>)
                              (setItem ''auth_token'' (js_to_string token) w))))
                    else alert InvalidCredentials w))"

definition uploadFile :: "jsval response \<Rightarrow> jsval response \<Rightarrow> world \<Rightarrow> world" where
  "uploadFile r rh w0 =
     (case file_st (ui w0) of
        None \<Rightarrow> alert PickAFile w0
      | Some f \<Rightarrow>
          (let w = axios_post ''/api/upload'' (FormData [(''file'', f)])
                     (Map.empty(''Content-Type'' \<mapsto> ''multipart/form-data'')) None w0
           in case r of
                Rejected \<Rightarrow>
                  alert UploadFailed (console_error [Text ''Upload failed:'', Err AxiosError] w)
              | Resolved d \<Rightarrow>
                  alert FileUploaded
                    (fetchHistory rh (set_ui (\<lambda>s. s\<lparr>filename := Some (name f)\<rparr>) w))))"

definition askQuestion :: "jsval response \<Rightarrow> jsval response \<Rightarrow> world \<Rightarrow> world" where
  "askQuestion r rh w0 =
     (if question (ui w0) = [] then alert EnterAQuestion w0
      else
        let w = axios_post ''/api/answer'' (Json (JObj [(''question'', JStr (question (ui w0)))]))
                  Map.empty None w0
        in case r of
             Rejected \<Rightarrow>
               alert FailedToGetAnswer (console_error [Text ''Ask failed:'', Err AxiosError] w)
           | Resolved d \<Rightarrow>
               (case get_prop d ''answer'' of
                  Inl e \<Rightarrow> alert FailedToGetAnswer (console_error [Text ''Ask failed:'', Err e] w)
                | Inr a \<Rightarrow> fetchHistory rh (set_ui (\<lambda>s. s\<lparr>answer := a\<rparr>) w)))"

text \<open>
  The audiobook request asks for a binary response, so its \<^verbatim>\<open>res.data\<close> is a blob; the
  handler wraps its bytes in a new blob of type \<^verbatim>\<open>audio/mpeg\<close>.
\<close>

definition generateAudio :: "blob response \<Rightarrow> world \<Rightarrow> world" where
  "generateAudio r w0 =
     (let w = axios_post ''/api/audiobook''
                (Json (JObj [(''lang_code'', JStr (selectedLang (ui w0)))]))
                Map.empty (Some ''blob'') w0
      in case r of
           Rejected \<Rightarrow>
             alert AudioFailed
               (console_error [Text ''Audio generation failed:'', Err AxiosError] w)
         | Resolved d \<Rightarrow>
             (let (u, w') = createObjectURL (Blob (bytes d) ''audio/mpeg'') w
              in alert AudioGenerated (set_ui (\<lambda>s. s\<lparr>audioUrl := Some u\<rparr>) w')))"

definition handleLogout :: "world \<Rightarrow> world" where
  "handleLogout w =
     set_ui (\<lambda>s. s\<lparr>answer := JStr []\<rparr>)
       (set_ui (\<lambda>s. s\<lparr>audioUrl := None\<rparr>)
         (set_ui (\<lambda>s. s\<lparr>qaHistory := JArr []\<rparr>)
           (set_ui (\<lambda>s. s\<lparr>showLogin := True\<rparr>)
             (set_ui (\<lambda>s. s\<lparr>isLoggedIn := False\<rparr>)
               (removeItem ''auth_token'' w)))))"

section \<open>Events, the effect on \<^verbatim>\<open>isLoggedIn\<close>, and rendering\<close>

text \<open>The callbacks wired to the controls in the JSX, with the responses they consume.\<close>

datatype event =
    ClickNavLogin
  | ClickLogout
  | DragOver
  | DragLeave
  | Drop "jsfile list"
  | ChangeFile "jsfile option"
  | ClickUpload "jsval response" "jsval response"
  | ChangeQuestion string
  | ClickAsk "jsval response" "jsval response"
  | ChangeLang string
  | ClickGenerate "blob response"
  | ChangeUsername string
  | ChangePassword string
  | ClickLogin "jsval response" "jsval response" "jsval response"
  | ClickCloseLogin

fun handler :: "event \<Rightarrow> world \<Rightarrow> world" where
  "handler ClickNavLogin w = set_ui (\<lambda>s. s\<lparr>showLogin := True\<rparr>) w"
| "handler ClickLogout w = handleLogout w"
| "handler DragOver w = set_ui (\<lambda>s. s\<lparr>dragOver := True\<rparr>) w"
| "handler DragLeave w = set_ui (\<lambda>s. s\<lparr>dragOver := False\<rparr>) w"
| "handler (Drop fs) w =
     (let w' = set_ui (\<lambda>s. s\<lparr>dragOver := False\<rparr>) w
      in case fs of [] \<Rightarrow> w' | f # _ \<Rightarrow> set_ui (\<lambda>s. s\<lparr>file_st := Some f\<rparr>) w')"
| "handler (ChangeFile f) w = set_ui (\<lambda>s. s\<lparr>file_st := f\<rparr>) w"
| "handler (ClickUpload r rh) w = uploadFile r rh w"
| "handler (ChangeQuestion q) w = set_ui (\<lambda>s. s\<lparr>question := q\<rparr>) w"
| "handler (ClickAsk r rh) w = askQuestion r rh w"
| "handler (ChangeLang c) w = set_ui (\<lambda>s. s\<lparr>selectedLang := c\<rparr>) w"
| "handler (ClickGenerate r) w = generateAudio r w"
| "handler (ChangeUsername u) w = set_ui (\<lambda>s. s\<lparr>username := u\<rparr>) w"
| "handler (ChangePassword p) w = set_ui (\<lambda>s. s\<lparr>password := p\<rparr>) w"
| "handler (ClickLogin r rl rh) w = handleLogin r rl rh w"
| "handler ClickCloseLogin w = set_ui (\<lambda>s. s\<lparr>showLogin := False\<rparr>) w"

text \<open>
  The body of \<^verbatim>\<open>useEffect(..., [isLoggedIn])\<close>. After the render that follows an event
  the effect runs if its dependency differs from the previous render's (on mount it runs
  with \<^verbatim>\<open>isLoggedIn\<close> false and does nothing). The two responses are those of the
  loaders the effect starts.
\<close>

definition loggedInEffect :: "jsval response \<Rightarrow> jsval response \<Rightarrow> world \<Rightarrow> world" where
  "loggedInEffect el eh w = (if isLoggedIn (ui w) then fetchHistory eh (fetchLangs el w) else w)"

definition commit :: "bool \<Rightarrow> jsval response \<Rightarrow> jsval response \<Rightarrow> world \<Rightarrow> world" where
  "commit prev el eh w = (if isLoggedIn (ui w) \<noteq> prev then loggedInEffect el eh w else w)"

definition step :: "event \<Rightarrow> jsval response \<Rightarrow> jsval response \<Rightarrow> world \<Rightarrow> world" where
  "step e el eh w = commit (isLoggedIn (ui w)) el eh (handler e w)"

fun run :: "(event \<times> jsval response \<times> jsval response) list \<Rightarrow> world \<Rightarrow> world" where
  "run [] w = w"
| "run ((e, el, eh) # es) w = run es (step e el eh w)"

text \<open>
  The parts of the rendered tree that depend on the session: the navigation button, the
  gate between the work area and the log-in notice, the audio element inside the work
  area (rendered when \<^verbatim>\<open>audioUrl\<close> is set, with \<^verbatim>\<open>src={audioUrl}\<close>), and the log-in
  dialog.
\<close>

datatype nav_button = LoginButton | LogoutButton

record view =
  nav :: nav_button
  work_area :: bool
  audio_src :: "object_url option"
  login_dialog :: bool

definition render :: "state \<Rightarrow> view" where
  "render s =
     \<lparr>nav = (if \<not> isLoggedIn s then LoginButton else LogoutButton),
      work_area = isLoggedIn s,
      audio_src = (if isLoggedIn s then audioUrl s else None),
      login_dialog = showLogin s\<rparr>"

text \<open>The requests made between two worlds of one run, oldest first.\<close>

definition issued_since :: "world \<Rightarrow> world \<Rightarrow> config list" where
  "issued_since w w' = drop (length (network w)) (network w')"

definition bearer :: "(string \<rightharpoonup> string) \<Rightarrow> string option" where
  "bearer storage =
     (case storage ''auth_token'' of
        None \<Rightarrow> None
      | Some token \<Rightarrow> if token \<noteq> [] then Some (''Bearer '' @ token) else None)"

text \<open>A log-in click whose response makes \<^verbatim>\<open>handleLogin\<close> store a token.\<close>

fun grants_token :: "event \<Rightarrow> bool" where
  "grants_token (ClickLogin (Resolved d) rl rh) =
     (case get_prop d ''token'' of Inl e \<Rightarrow> False | Inr token \<Rightarrow> truthy token)"
| "grants_token e = False"

section \<open>Example sessions\<close>

text \<open>
  The scenario of the specification: user \<^verbatim>\<open>admin\<close> with password \<^verbatim>\<open>1234\<close> typed into a
  freshly loaded page, and a server that answers the log-in with the token \<^verbatim>\<open>abc\<close>.
\<close>

definition admin_world :: world where
  "admin_world =
     run [(ChangeUsername ''admin'', Rejected, Rejected),
          (ChangePassword ''1234'', Rejected, Rejected)]
       (initial_world Map.empty)"

definition token_abc :: jsval where
  "token_abc = JObj [(''token'', JStr ''abc'')]"

definition ask_events :: "(event \<times> jsval response \<times> jsval response) list" where
  "ask_events =
     [(ChangeQuestion ''What is this document about?'', Rejected, Rejected),
      (ClickAsk (Resolved (JObj [(''answer'', JStr ''It is a summary.'')]))
         (Resolved (JObj [(''qa_pairs'', JArr [])])), Rejected, Rejected),
      (ClickGenerate Rejected, Rejected, Rejected)]"

text \<open>
  A session of that user: log-in, one question, one audiobook. The history the server
  returns is neither sorted nor free of duplicates.
\<close>

definition catalog_body :: jsval where
  "catalog_body = JObj [(''langs'', JObj [(''en'', JStr ''English''), (''fr'', JStr ''French'')])]"

definition history_body :: jsval where
  "history_body =
     JObj [(''qa_pairs'',
            JArr [JArr [JStr ''b?'', JStr ''2''], JArr [JStr ''a?'', JStr ''1''],
                  JArr [JStr ''b?'', JStr ''2'']])]"

definition mp3 :: blob where
  "mp3 = Blob [73, 68, 51] ''application/octet-stream''"

definition session_world :: world where
  "session_world =
     run [(ClickLogin (Resolved token_abc) (Resolved catalog_body) (Resolved history_body),
             Resolved catalog_body, Resolved history_body),
          (ChangeQuestion ''What is this document about?'', Rejected, Rejected),
          (ClickAsk (Resolved (JObj [(''answer'', JStr ''It is a summary.'')]))
             (Resolved history_body), Rejected, Rejected),
          (ClickGenerate (Resolved mp3), Rejected, Rejected)]
       admin_world"

definition empty_code_world :: world where
  "empty_code_world =
     run [(ClickLogin (Resolved token_abc)
             (Resolved (JObj [(''langs'', JObj [('''', JStr ''Automatic'')])])) Rejected,
             Rejected, Rejected),
          (ChangeLang [], Rejected, Rejected)]
       admin_world"

text \<open>
  A page loaded while the storage still holds the token \<^verbatim>\<open>old\<close> of an earlier visit.
\<close>

definition stale_token_world :: world where
  "stale_token_world =
     run [(ChangeUsername ''admin'', Rejected, Rejected),
          (ChangePassword ''1234'', Rejected, Rejected)]
       (initial_world (Map.empty(''auth_token'' \<mapsto> ''old'')))"

section \<open>Basic facts about the handlers\<close>

lemmas prim_defs = axios_request_def axios_get_def axios_post_def alert_def console_error_def
  setItem_def removeItem_def createObjectURL_def set_ui_def

lemmas flow_defs = handleLogin_def uploadFile_def askQuestion_def generateAudio_def
  handleLogout_def fetchLangs_def fetchHistory_def

lemma interceptor_auth:
  "headers cfg ''Authorization'' = None \<Longrightarrow>
   headers (interceptor st cfg) ''Authorization'' = bearer st"
  by (simp add: interceptor_def bearer_def split: option.splits)

lemma fetchLangs_network:
  "network (fetchLangs r w) = network w @ [interceptor (localStorage w)
     \<lparr>req_method = GET, baseURL = ''http://127.0.0.1:8000'', url = ''/api/langs'',
      headers = Map.empty, payload = NoBody, responseType = None\<rparr>]"
  by (simp add: fetchLangs_def prim_defs Let_def split: response.splits sum.splits)

lemma fetchHistory_network:
  "network (fetchHistory r w) = network w @ [interceptor (localStorage w)
     \<lparr>req_method = GET, baseURL = ''http://127.0.0.1:8000'', url = ''/api/qa-history'',
      headers = Map.empty, payload = NoBody, responseType = None\<rparr>]"
  by (simp add: fetchHistory_def prim_defs Let_def split: response.splits sum.splits)

lemma fetchLangs_storage: "localStorage (fetchLangs r w) = localStorage w"
  by (simp add: fetchLangs_def prim_defs Let_def split: response.splits sum.splits)

lemma fetchHistory_storage: "localStorage (fetchHistory r w) = localStorage w"
  by (simp add: fetchHistory_def prim_defs Let_def split: response.splits sum.splits)

lemma fetchLangs_isLoggedIn: "isLoggedIn (ui (fetchLangs r w)) = isLoggedIn (ui w)"
  by (simp add: fetchLangs_def prim_defs Let_def split: response.splits sum.splits)

lemma fetchHistory_isLoggedIn: "isLoggedIn (ui (fetchHistory r w)) = isLoggedIn (ui w)"
  by (simp add: fetchHistory_def prim_defs Let_def split: response.splits sum.splits)

lemmas loader_simps = fetchLangs_network fetchHistory_network fetchLangs_storage
  fetchHistory_storage fetchLangs_isLoggedIn fetchHistory_isLoggedIn

text \<open>Events that leave the stored token alone.\<close>

lemma handler_storage:
  "\<not> grants_token e \<Longrightarrow> e \<noteq> ClickLogout \<Longrightarrow> localStorage (handler e w) = localStorage w"
  by (cases e)
     (auto simp: handleLogin_def uploadFile_def askQuestion_def generateAudio_def prim_defs Let_def
        loader_simps
        split: response.splits sum.splits option.splits list.splits prod.splits)

lemma handler_isLoggedIn:
  "\<not> grants_token e \<Longrightarrow> e \<noteq> ClickLogout \<Longrightarrow>
   isLoggedIn (ui (handler e w)) = isLoggedIn (ui w)"
  by (cases e)
     (auto simp: handleLogin_def uploadFile_def askQuestion_def generateAudio_def prim_defs Let_def
        loader_simps
        split: response.splits sum.splits option.splits list.splits prod.splits)

lemma handler_extends: "\<exists>ns. network (handler e w) = network w @ ns"
  by (cases e)
     (auto simp: flow_defs prim_defs Let_def
        split: response.splits sum.splits option.splits list.splits prod.splits)

lemma commit_extends: "\<exists>ns. network (commit b el eh w) = network w @ ns"
  by (simp add: commit_def loggedInEffect_def loader_simps)

lemma step_extends: "\<exists>ns. network (step e el eh w) = network w @ ns"
proof -
  obtain ns where a: "network (handler e w) = network w @ ns"
    using handler_extends by blast
  obtain ms where "network (step e el eh w) = network (handler e w) @ ms"
    unfolding step_def using commit_extends by blast
  with a show ?thesis by simp
qed

lemma run_extends: "\<exists>ns. network (run es w) = network w @ ns"
proof (induction es arbitrary: w)
  case Nil
  then show ?case by simp
next
  case (Cons a es)
  obtain e el eh where a: "a = (e, el, eh)" by (cases a)
  obtain ns where "network (step e el eh w) = network w @ ns"
    using step_extends by blast
  moreover obtain ms where "network (run es (step e el eh w)) = network (step e el eh w) @ ms"
    using Cons.IH by blast
  ultimately show ?case by (simp add: a)
qed

lemma issued_since_trans:
  assumes "\<exists>ns. network w' = network w @ ns" and "\<exists>ms. network w'' = network w' @ ms"
  shows "issued_since w w'' = issued_since w w' @ issued_since w' w''"
  using assms by (auto simp: issued_since_def)

lemma handler_issued:
  "\<not> grants_token e \<Longrightarrow>
   \<forall>c\<in>set (issued_since w (handler e w)). headers c ''Authorization'' = bearer (localStorage w)"
  by (cases e)
     (auto simp: flow_defs prim_defs Let_def issued_since_def interceptor_auth
        split: response.splits sum.splits option.splits list.splits prod.splits)

lemma step_storage:
  "\<not> grants_token e \<Longrightarrow> e \<noteq> ClickLogout \<Longrightarrow> localStorage (step e el eh w) = localStorage w"
  by (simp add: step_def commit_def loggedInEffect_def handler_storage loader_simps)

lemma step_issued:
  assumes "\<not> grants_token e"
  shows "\<forall>c\<in>set (issued_since w (step e el eh w)).
           headers c ''Authorization'' = bearer (localStorage w)"
proof (cases "e = ClickLogout")
  case True
  then show ?thesis
    by (simp add: step_def commit_def loggedInEffect_def handleLogout_def prim_defs
        issued_since_def)
next
  case False
  with assms have "step e el eh w = handler e w"
    by (simp add: step_def commit_def handler_isLoggedIn)
  with assms show ?thesis by (simp add: handler_issued)
qed

lemma logout_storage: "localStorage (step ClickLogout el eh w) ''auth_token'' = None"
  by (simp add: step_def commit_def loggedInEffect_def handleLogout_def prim_defs)

lemma step_keeps_no_token:
  assumes "\<not> grants_token e" and "localStorage w ''auth_token'' = None"
  shows "localStorage (step e el eh w) ''auth_token'' = None"
proof (cases "e = ClickLogout")
  case True
  then show ?thesis by (simp add: logout_storage)
next
  case False
  with assms show ?thesis by (simp add: step_storage)
qed

lemma run_keeps_token:
  assumes "\<forall>a\<in>set es. \<not> grants_token (fst a) \<and> fst a \<noteq> ClickLogout"
  shows "localStorage (run es w) = localStorage w \<and>
         (\<forall>c\<in>set (issued_since w (run es w)).
            headers c ''Authorization'' = bearer (localStorage w))"
  using assms
proof (induction es arbitrary: w)
  case Nil
  then show ?case by (simp add: issued_since_def)
next
  case (Cons a es)
  obtain e el eh where a: "a = (e, el, eh)" by (cases a)
  let ?w' = "step e el eh w"
  from Cons.prems a have e: "\<not> grants_token e" "e \<noteq> ClickLogout" by auto
  from Cons.prems have rest: "\<forall>a\<in>set es. \<not> grants_token (fst a) \<and> fst a \<noteq> ClickLogout"
    by simp
  have st: "localStorage ?w' = localStorage w" using e by (rule step_storage)
  have ih: "localStorage (run es ?w') = localStorage ?w' \<and>
            (\<forall>c\<in>set (issued_since ?w' (run es ?w')).
               headers c ''Authorization'' = bearer (localStorage ?w'))"
    using Cons.IH [OF rest] .
  have split: "issued_since w (run es ?w') = issued_since w ?w' @ issued_since ?w' (run es ?w')"
    by (rule issued_since_trans [OF step_extends run_extends])
  show ?case
    using ih st step_issued [OF e(1), of w el eh] by (auto simp: a split)
qed

lemma run_keeps_no_token:
  assumes "\<forall>a\<in>set es. \<not> grants_token (fst a)" and "localStorage w ''auth_token'' = None"
  shows "localStorage (run es w) ''auth_token'' = None \<and>
         (\<forall>c\<in>set (issued_since w (run es w)). headers c ''Authorization'' = None)"
  using assms
proof (induction es arbitrary: w)
  case Nil
  then show ?case by (simp add: issued_since_def)
next
  case (Cons a es)
  obtain e el eh where a: "a = (e, el, eh)" by (cases a)
  let ?w' = "step e el eh w"
  from Cons.prems a have e: "\<not> grants_token e" by auto
  from Cons.prems have rest: "\<forall>a\<in>set es. \<not> grants_token (fst a)" by simp
  have st: "localStorage ?w' ''auth_token'' = None"
    using e Cons.prems(2) by (rule step_keeps_no_token)
  have ih: "localStorage (run es ?w') ''auth_token'' = None \<and>
            (\<forall>c\<in>set (issued_since ?w' (run es ?w')). headers c ''Authorization'' = None)"
    using Cons.IH [OF rest st] .
  have split: "issued_since w (run es ?w') = issued_since w ?w' @ issued_since ?w' (run es ?w')"
    by (rule issued_since_trans [OF step_extends run_extends])
  have "bearer (localStorage w) = None"
    using Cons.prems(2) by (simp add: bearer_def)
  then show ?case
    using ih step_issued [OF e, of w el eh] by (auto simp: a split)
qed

text \<open>The requests of a log-in that is granted a token.\<close>

lemma login_granted:
  assumes "username (ui w) \<noteq> []" and "password (ui w) \<noteq> []"
    and "get_prop d ''token'' = Inr token" and "truthy token"
  shows "localStorage (step (ClickLogin (Resolved d) rl rh) el eh w) =
           (localStorage w)(''auth_token'' \<mapsto> js_to_string token)"
    and "map url (issued_since w (step (ClickLogin (Resolved d) rl rh) el eh w)) =
           (if isLoggedIn (ui w) then [''/api/login'', ''/api/langs'', ''/api/qa-history'']
            else [''/api/login'', ''/api/langs'', ''/api/qa-history'', ''/api/langs'',
                  ''/api/qa-history''])"
    and "headers (hd (issued_since w (step (ClickLogin (Resolved d) rl rh) el eh w)))
           ''Authorization'' = bearer (localStorage w)"
    and "\<forall>c\<in>set (tl (issued_since w (step (ClickLogin (Resolved d) rl rh) el eh w))).
           headers c ''Authorization'' = bearer ((localStorage w)(''auth_token'' \<mapsto> js_to_string token))"
  using assms
  by (simp_all add: step_def commit_def loggedInEffect_def handleLogin_def loader_simps prim_defs
      Let_def issued_since_def interceptor_def bearer_def split: option.splits)

lemma admin_world_simps:
  "ui admin_world = initial_state\<lparr>username := ''admin'', password := ''1234''\<rparr>"
  "localStorage admin_world = Map.empty"
  "network admin_world = []"
  "alerts admin_world = []"
  "console admin_world = []"
  "blob_store admin_world = []"
  by (simp_all add: admin_world_def initial_world_def step_def commit_def set_ui_def)

lemmas step_defs = step_def commit_def loggedInEffect_def

lemma interceptor_fields:
  "url (interceptor st cfg) = url cfg"
  "payload (interceptor st cfg) = payload cfg"
  "req_method (interceptor st cfg) = req_method cfg"
  by (simp_all add: interceptor_def split: option.splits)


lemmas eval_defs = step_def commit_def loggedInEffect_def flow_defs prim_defs Let_def
  admin_world_simps initial_state_def token_abc_def interceptor_def

lemma session_world_ui:
  "ui session_world =
     \<lparr>file_st = None, filename = None, question = ''What is this document about?'',
      answer = JStr ''It is a summary.'',
      qaHistory = JArr [JArr [JStr ''b?'', JStr ''2''], JArr [JStr ''a?'', JStr ''1''],
                        JArr [JStr ''b?'', JStr ''2'']],
      langs = JObj [(''en'', JStr ''English''), (''fr'', JStr ''French'')],
      selectedLang = ''en'', audioUrl = Some (ObjectURL 0), dragOver = False,
      showLogin = False, isLoggedIn = True, username = ''admin'', password = ''1234''\<rparr>"
  by (simp add: session_world_def catalog_body_def history_body_def mp3_def eval_defs js_or_def)

lemma session_world_rest:
  "localStorage session_world ''auth_token'' = Some ''abc''"
  "map url (network session_world) =
     [''/api/login'', ''/api/langs'', ''/api/qa-history'', ''/api/langs'', ''/api/qa-history'',
      ''/api/answer'', ''/api/qa-history'', ''/api/audiobook'']"
  "alerts session_world = [AudioGenerated]"
  "console session_world = []"
  "blob_store session_world = [Blob [73, 68, 51] ''audio/mpeg'']"
  by (simp_all add: session_world_def catalog_body_def history_body_def mp3_def eval_defs js_or_def)

lemma session_world_requests: "length (network session_world) = 8"
  using session_world_rest(2) [THEN arg_cong, of length] by simp

lemma empty_code_world_simps:
  "selectedLang (ui empty_code_world) = []"
  "isLoggedIn (ui empty_code_world)"
  "langs (ui empty_code_world) = JObj [('''', JStr ''Automatic'')]"
  "alerts empty_code_world = []"
  "length (network empty_code_world) = 5"
  by (simp_all add: empty_code_world_def eval_defs js_or_def)

lemma stale_token_world_simps:
  "ui stale_token_world = initial_state\<lparr>username := ''admin'', password := ''1234''\<rparr>"
  "localStorage stale_token_world = Map.empty(''auth_token'' \<mapsto> ''old'')"
  "network stale_token_world = []"
  by (simp_all add: stale_token_world_def initial_world_def step_def commit_def set_ui_def)

lemma empty_credentials_no_request:
  "username (ui w) = [] \<or> password (ui w) = [] \<Longrightarrow>
   step (ClickLogin r rl rh) el eh w = alert PleaseEnterCredentials w"
  by (auto simp: step_defs handleLogin_def prim_defs)

section \<open>The bearer credential\<close>

text \<open>
  Claim C1. After a log-in that is granted the token \<open>t\<close> (a non-empty string), the token is in
  storage, and every request made after the log-in request itself carries the header
  \<^verbatim>\<open>Authorization: Bearer t\<close>: the loaders the log-in starts and the requests of all later
  events, up to the next log-out or granted log-in. After a log-out the token is gone
  from storage and no request carries an \<^verbatim>\<open>Authorization\<close> header, up to the next granted
  log-in.
\<close>

theorem C1_bearer_after_login_none_after_logout:
  "(username (ui w) \<noteq> [] \<and> password (ui w) \<noteq> [] \<and>
    get_prop d ''token'' = Inr (JStr t) \<and> t \<noteq> [] \<and>
    (\<forall>a\<in>set es. \<not> grants_token (fst a) \<and> fst a \<noteq> ClickLogout)
    \<longrightarrow> localStorage (step (ClickLogin (Resolved d) rl rh) el eh w) ''auth_token'' = Some t \<and>
        url (hd (issued_since w (run es (step (ClickLogin (Resolved d) rl rh) el eh w)))) =
          ''/api/login'' \<and>
        (\<forall>c\<in>set (tl (issued_since w (run es (step (ClickLogin (Resolved d) rl rh) el eh w)))).
           headers c ''Authorization'' = Some (''Bearer '' @ t)))
   \<and>
   ((\<forall>a\<in>set es. \<not> grants_token (fst a))
    \<longrightarrow> localStorage (step ClickLogout el eh w) ''auth_token'' = None \<and>
        (\<forall>c\<in>set (issued_since w (run es (step ClickLogout el eh w))).
           headers c ''Authorization'' = None))"
proof (intro conjI impI)
  let ?w1 = "step (ClickLogin (Resolved d) rl rh) el eh w"
  assume h: "username (ui w) \<noteq> [] \<and> password (ui w) \<noteq> [] \<and>
    get_prop d ''token'' = Inr (JStr t) \<and> t \<noteq> [] \<and>
    (\<forall>a\<in>set es. \<not> grants_token (fst a) \<and> fst a \<noteq> ClickLogout)"
  then have u: "username (ui w) \<noteq> []" and p: "password (ui w) \<noteq> []"
    and d: "get_prop d ''token'' = Inr (JStr t)" and t: "truthy (JStr t)"
    and es: "\<forall>a\<in>set es. \<not> grants_token (fst a) \<and> fst a \<noteq> ClickLogout"
    by simp_all
  have st: "localStorage ?w1 = (localStorage w)(''auth_token'' \<mapsto> t)"
    using login_granted(1) [OF u p d t] by simp
  then show "localStorage ?w1 ''auth_token'' = Some t" by simp
  have b: "bearer (localStorage ?w1) = Some (''Bearer '' @ t)"
    using st t by (simp add: bearer_def)
  have urls: "map url (issued_since w ?w1) =
           (if isLoggedIn (ui w) then [''/api/login'', ''/api/langs'', ''/api/qa-history'']
            else [''/api/login'', ''/api/langs'', ''/api/qa-history'', ''/api/langs'',
                  ''/api/qa-history''])"
    using login_granted(2) [OF u p d t] .
  then have ne: "issued_since w ?w1 \<noteq> []" by (auto split: if_splits)
  have split: "issued_since w (run es ?w1) = issued_since w ?w1 @ issued_since ?w1 (run es ?w1)"
    by (rule issued_since_trans [OF step_extends run_extends])
  have "url (hd (issued_since w ?w1)) = ''/api/login''"
    using urls ne by (cases "issued_since w ?w1") (auto split: if_splits)
  then show "url (hd (issued_since w (run es ?w1))) = ''/api/login''"
    using ne by (simp add: split)
  have first: "\<forall>c\<in>set (tl (issued_since w ?w1)). headers c ''Authorization'' = Some (''Bearer '' @ t)"
    using login_granted(4) [OF u p d t, of rl rh el eh] b st by simp
  have later: "\<forall>c\<in>set (issued_since ?w1 (run es ?w1)).
      headers c ''Authorization'' = Some (''Bearer '' @ t)"
    using run_keeps_token [OF es, of ?w1] b by simp
  show "\<forall>c\<in>set (tl (issued_since w (run es ?w1))).
      headers c ''Authorization'' = Some (''Bearer '' @ t)"
    using first later ne by (auto simp: split)
next
  assume "\<forall>a\<in>set es. \<not> grants_token (fst a)"
  then show "localStorage (step ClickLogout el eh w) ''auth_token'' = None" 
    by (simp add: logout_storage)
next
  let ?w1 = "step ClickLogout el eh w"
  assume es: "\<forall>a\<in>set es. \<not> grants_token (fst a)"
  have split: "issued_since w (run es ?w1) = issued_since w ?w1 @ issued_since ?w1 (run es ?w1)"
    by (rule issued_since_trans [OF step_extends run_extends])
  have "issued_since w ?w1 = []"
    by (simp add: step_def commit_def loggedInEffect_def handleLogout_def prim_defs
        issued_since_def)
  then show "\<forall>c\<in>set (issued_since w (run es ?w1)). headers c ''Authorization'' = None"
    using run_keeps_no_token [OF es logout_storage, of el eh w] by (simp add: split)
qed

theorem C1_witness:
  "localStorage (step (ClickLogin (Resolved token_abc) Rejected Rejected) Rejected Rejected
     admin_world) ''auth_token'' = Some ''abc'' \<and>
   list_all (\<lambda>c. headers c ''Authorization'' = Some ''Bearer abc'')
     (tl (issued_since admin_world (run ask_events
        (step (ClickLogin (Resolved token_abc) Rejected Rejected) Rejected Rejected
           admin_world)))) \<and>
   length (issued_since admin_world (run ask_events
        (step (ClickLogin (Resolved token_abc) Rejected Rejected) Rejected Rejected
           admin_world))) = 8 \<and>
   list_all (\<lambda>c. headers c ''Authorization'' = None)
     (issued_since admin_world (run ask_events (step ClickLogout Rejected Rejected admin_world))) \<and>
   length (issued_since admin_world
     (run ask_events (step ClickLogout Rejected Rejected admin_world))) = 3"
proof -
  have h: "\<forall>a\<in>set ask_events. \<not> grants_token (fst a) \<and> fst a \<noteq> ClickLogout"
    by (simp add: ask_events_def)
  have a: "username (ui admin_world) \<noteq> [] \<and> password (ui admin_world) \<noteq> []"
    by (simp add: admin_world_simps)
  have g: "get_prop token_abc ''token'' = Inr (JStr ''abc'')"
    by (simp add: token_abc_def)
  have n1: "length (issued_since admin_world (run ask_events
        (step (ClickLogin (Resolved token_abc) Rejected Rejected) Rejected Rejected
           admin_world))) = 8"
    by (simp add: ask_events_def token_abc_def issued_since_def step_def commit_def
        loggedInEffect_def flow_defs prim_defs admin_world_simps initial_state_def Let_def)
  have n2: "length (issued_since admin_world
      (run ask_events (step ClickLogout Rejected Rejected admin_world))) = 3"
    by (simp add: ask_events_def token_abc_def issued_since_def step_def commit_def
        loggedInEffect_def flow_defs prim_defs admin_world_simps initial_state_def Let_def)
  show ?thesis
    using C1_bearer_after_login_none_after_logout
      [of admin_world token_abc "''abc''" ask_events Rejected Rejected Rejected Rejected]
      h a g n1 n2
    by (simp add: list_all_iff)
qed

text \<open>
  Claim C10. The interceptor knows no endpoint: when a log-in is attempted while storage
  still holds a token \<open>t\<close>, the \<^verbatim>\<open>POST /api/login\<close> itself carries
  \<^verbatim>\<open>Authorization: Bearer t\<close>; and for every event, each request it makes carries exactly
  the header the interceptor derives from the storage at the time of the request (the
  storage before the event, or, for the loaders a granted log-in starts, the storage
  after it).
\<close>

theorem C10_interceptor_has_no_endpoint_exception:
  "(localStorage w ''auth_token'' = Some t \<and> t \<noteq> [] \<and>
    username (ui w) \<noteq> [] \<and> password (ui w) \<noteq> []
    \<longrightarrow> issued_since w (step (ClickLogin r rl rh) el eh w) \<noteq> [] \<and>
        req_method (hd (issued_since w (step (ClickLogin r rl rh) el eh w))) = POST \<and>
        url (hd (issued_since w (step (ClickLogin r rl rh) el eh w))) = ''/api/login'' \<and>
        headers (hd (issued_since w (step (ClickLogin r rl rh) el eh w))) ''Authorization'' =
          Some (''Bearer '' @ t))
   \<and>
   (\<forall>c\<in>set (issued_since w (step e el eh w)).
      headers c ''Authorization'' = bearer (localStorage w) \<or>
      headers c ''Authorization'' = bearer (localStorage (step e el eh w)))"
proof (intro conjI impI)
  assume h: "localStorage w ''auth_token'' = Some t \<and> t \<noteq> [] \<and>
    username (ui w) \<noteq> [] \<and> password (ui w) \<noteq> []"
  then have hd: "hd (issued_since w (step (ClickLogin r rl rh) el eh w)) =
      interceptor (localStorage w)
        \<lparr>req_method = POST, baseURL = ''http://127.0.0.1:8000'', url = ''/api/login'',
         headers = Map.empty,
         payload = Json (JObj [(''username'', JStr (username (ui w))),
                               (''password'', JStr (password (ui w)))]),
         responseType = None\<rparr>"
    and ne: "issued_since w (step (ClickLogin r rl rh) el eh w) \<noteq> []"
    by (auto simp: step_defs handleLogin_def loader_simps prim_defs Let_def issued_since_def
        split: response.splits sum.splits)
  show "issued_since w (step (ClickLogin r rl rh) el eh w) \<noteq> []" by (rule ne)
  show "req_method (hd (issued_since w (step (ClickLogin r rl rh) el eh w))) = POST"
    by (simp add: hd interceptor_fields)
  show "url (hd (issued_since w (step (ClickLogin r rl rh) el eh w))) = ''/api/login''"
    by (simp add: hd interceptor_fields)
  show "headers (hd (issued_since w (step (ClickLogin r rl rh) el eh w))) ''Authorization'' =
          Some (''Bearer '' @ t)"
    using h by (simp add: hd interceptor_def)
next
  show "\<forall>c\<in>set (issued_since w (step e el eh w)).
      headers c ''Authorization'' = bearer (localStorage w) \<or>
      headers c ''Authorization'' = bearer (localStorage (step e el eh w))"
  proof (cases "grants_token e")
    case False
    then show ?thesis using step_issued [of e w el eh] by simp
  next
    case True
    then obtain d rl rh token where e: "e = ClickLogin (Resolved d) rl rh"
      and d: "get_prop d ''token'' = Inr token" and t: "truthy token"
      by (cases e rule: grants_token.cases) (auto split: sum.splits)
    show ?thesis
    proof (cases "username (ui w) = [] \<or> password (ui w) = []")
      case True
      then show ?thesis
        by (simp add: e empty_credentials_no_request alert_def issued_since_def)
    next
      case False
      then have u: "username (ui w) \<noteq> []" and p: "password (ui w) \<noteq> []" by simp_all
      let ?xs = "issued_since w (step (ClickLogin (Resolved d) rl rh) el eh w)"
      have ne: "?xs \<noteq> []"
        using login_granted(2) [OF u p d t, of rl rh el eh] by (auto split: if_splits)
      then have xs: "?xs = hd ?xs # tl ?xs" by simp
      have "\<forall>c\<in>set (hd ?xs # tl ?xs).
          headers c ''Authorization'' = bearer (localStorage w) \<or>
          headers c ''Authorization'' =
            bearer (localStorage (step (ClickLogin (Resolved d) rl rh) el eh w))"
        using login_granted(3) [OF u p d t, of rl rh el eh]
          login_granted(4) [OF u p d t, of rl rh el eh]
          login_granted(1) [OF u p d t, of rl rh el eh]
        by simp
      with xs show ?thesis by (simp add: e)
    qed
  qed
qed

theorem C10_witness:
  "localStorage stale_token_world ''auth_token'' = Some ''old'' \<and>
   url (hd (issued_since stale_token_world
     (step (ClickLogin Rejected Rejected Rejected) Rejected Rejected stale_token_world))) =
     ''/api/login'' \<and>
   headers (hd (issued_since stale_token_world
     (step (ClickLogin Rejected Rejected Rejected) Rejected Rejected stale_token_world)))
     ''Authorization'' = Some ''Bearer old'' \<and>
   length (issued_since stale_token_world
     (step (ClickLogin Rejected Rejected Rejected) Rejected Rejected stale_token_world)) = 1"
proof -
  have n: "length (issued_since stale_token_world
     (step (ClickLogin Rejected Rejected Rejected) Rejected Rejected stale_token_world)) = 1"
    by (simp add: step_defs handleLogin_def prim_defs Let_def issued_since_def
        stale_token_world_simps initial_state_def)
  show ?thesis
    using C10_interceptor_has_no_endpoint_exception
      [of stale_token_world "''old''" Rejected Rejected Rejected Rejected Rejected
        "ClickLogin Rejected Rejected Rejected"] n
    by (simp add: stale_token_world_simps initial_state_def)
qed

section \<open>Validation of required input\<close>

text \<open>
  Claim C2 as stated fails for \<^verbatim>\<open>generateAudio\<close>: with the empty language code selected
  (a catalog may offer it), the handler still posts to \<^verbatim>\<open>/api/audiobook\<close>, with
  \<^verbatim>\<open>lang_code\<close> empty, and the only alert is the success notice.
\<close>

theorem C2_generateAudio_sends_empty_code:
  "selectedLang (ui empty_code_world) = [] \<and>
   network (step (ClickGenerate (Resolved mp3)) Rejected Rejected empty_code_world)
     \<noteq> network empty_code_world \<and>
   map url (issued_since empty_code_world
       (step (ClickGenerate (Resolved mp3)) Rejected Rejected empty_code_world)) =
     [''/api/audiobook''] \<and>
   map payload (issued_since empty_code_world
       (step (ClickGenerate (Resolved mp3)) Rejected Rejected empty_code_world)) =
     [Json (JObj [(''lang_code'', JStr [])])] \<and>
   alerts (step (ClickGenerate (Resolved mp3)) Rejected Rejected empty_code_world) =
     [AudioGenerated]"
  by (simp add: empty_code_world_simps step_defs generateAudio_def prim_defs Let_def
      issued_since_def mp3_def interceptor_fields)

text \<open>
  Claim C2, amended. Log-in with an empty user name or password, upload with no file
  selected, and ask with an empty question make no request and show their validation
  alert. \<^verbatim>\<open>generateAudio\<close> has no check of its input: it always makes one
  \<^verbatim>\<open>POST /api/audiobook\<close> carrying the selected language code, whatever it is.
\<close>

theorem C2_validation_of_login_upload_ask:
  "(username (ui w) = [] \<or> password (ui w) = [] \<longrightarrow>
      network (step (ClickLogin r rl rh) el eh w) = network w \<and>
      alerts (step (ClickLogin r rl rh) el eh w) = alerts w @ [PleaseEnterCredentials]) \<and>
   (file_st (ui w) = None \<longrightarrow>
      network (step (ClickUpload ru ruh) el eh w) = network w \<and>
      alerts (step (ClickUpload ru ruh) el eh w) = alerts w @ [PickAFile]) \<and>
   (question (ui w) = [] \<longrightarrow>
      network (step (ClickAsk ra rah) el eh w) = network w \<and>
      alerts (step (ClickAsk ra rah) el eh w) = alerts w @ [EnterAQuestion]) \<and>
   map url (issued_since w (step (ClickGenerate rb) el eh w)) = [''/api/audiobook''] \<and>
   map payload (issued_since w (step (ClickGenerate rb) el eh w)) =
     [Json (JObj [(''lang_code'', JStr (selectedLang (ui w)))])]"
  by (auto simp: step_defs handleLogin_def uploadFile_def askQuestion_def generateAudio_def
      prim_defs Let_def issued_since_def interceptor_def
      split: response.splits option.splits prod.splits)

theorem C2_witness:
  "network (step (ClickLogin (Resolved token_abc) Rejected Rejected) Rejected Rejected
      (initial_world Map.empty)) = [] \<and>
   alerts (step (ClickLogin (Resolved token_abc) Rejected Rejected) Rejected Rejected
      (initial_world Map.empty)) = [PleaseEnterCredentials] \<and>
   network (step (ClickUpload (Resolved token_abc) Rejected) Rejected Rejected
      (initial_world Map.empty)) = [] \<and>
   alerts (step (ClickUpload (Resolved token_abc) Rejected) Rejected Rejected
      (initial_world Map.empty)) = [PickAFile] \<and>
   network (step (ClickAsk (Resolved token_abc) Rejected) Rejected Rejected
      (initial_world Map.empty)) = [] \<and>
   alerts (step (ClickAsk (Resolved token_abc) Rejected) Rejected Rejected
      (initial_world Map.empty)) = [EnterAQuestion] \<and>
   map payload (issued_since (initial_world Map.empty)
      (step (ClickGenerate Rejected) Rejected Rejected (initial_world Map.empty))) =
     [Json (JObj [(''lang_code'', JStr ''en'')])]"
proof -
  have i: "username (ui (initial_world Map.empty)) = []"
    "file_st (ui (initial_world Map.empty)) = None"
    "question (ui (initial_world Map.empty)) = []"
    "selectedLang (ui (initial_world Map.empty)) = ''en''"
    "network (initial_world Map.empty) = []"
    "alerts (initial_world Map.empty) = []"
    by (simp_all add: initial_world_def initial_state_def)
  show ?thesis
    using C2_validation_of_login_upload_ask
      [of "initial_world Map.empty" "Resolved token_abc" Rejected Rejected Rejected Rejected
        "Resolved token_abc" Rejected "Resolved token_abc" Rejected Rejected] i
    by simp
qed

section \<open>History and language loaders\<close>

text \<open>
  Claim C3. When the body of a successful history response holds a list under
  \<^verbatim>\<open>qa_pairs\<close>, the history kept in memory afterwards is exactly that list, in the
  server's order, whatever was held before.
\<close>

theorem C3_history_replaced_by_server_list:
  "get_prop d ''qa_pairs'' = Inr (JArr L) \<Longrightarrow>
   qaHistory (ui (fetchHistory (Resolved d) w)) = JArr L"
  by (simp add: fetchHistory_def prim_defs Let_def js_or_def)

theorem C3_witness:
  "qaHistory (ui session_world) =
     JArr [JArr [JStr ''b?'', JStr ''2''], JArr [JStr ''a?'', JStr ''1''],
           JArr [JStr ''b?'', JStr ''2'']] \<and>
   qaHistory (ui (fetchHistory
      (Resolved (JObj [(''qa_pairs'', JArr [JArr [JStr ''z?'', JStr ''9''],
                                          JArr [JStr ''b?'', JStr ''2''],
                                          JArr [JStr ''z?'', JStr ''9'']])]))
      session_world)) =
     JArr [JArr [JStr ''z?'', JStr ''9''], JArr [JStr ''b?'', JStr ''2''],
           JArr [JStr ''z?'', JStr ''9'']]"
proof -
  have "get_prop (JObj [(''qa_pairs'', JArr [JArr [JStr ''z?'', JStr ''9''],
                                          JArr [JStr ''b?'', JStr ''2''],
                                          JArr [JStr ''z?'', JStr ''9'']])]) ''qa_pairs'' =
        Inr (JArr [JArr [JStr ''z?'', JStr ''9''], JArr [JStr ''b?'', JStr ''2''],
           JArr [JStr ''z?'', JStr ''9'']])"
    by simp
  from C3_history_replaced_by_server_list [OF this, of session_world]
  show ?thesis by (simp add: session_world_ui)
qed

text \<open>
  Claim C8. When the request of a loader fails, the failure is written to the console,
  no alert is shown, and the component state (so also the history and the catalog) is
  what it was.
\<close>

theorem C8_loader_failures_are_silent:
  "ui (fetchLangs Rejected w) = ui w \<and>
   alerts (fetchLangs Rejected w) = alerts w \<and>
   console (fetchLangs Rejected w) =
     console w @ [[Text ''Error fetching langs:'', Err AxiosError]] \<and>
   ui (fetchHistory Rejected w) = ui w \<and>
   alerts (fetchHistory Rejected w) = alerts w \<and>
   console (fetchHistory Rejected w) =
     console w @ [[Text ''Error fetching history:'', Err AxiosError]]"
  by (simp add: fetchLangs_def fetchHistory_def prim_defs Let_def)

theorem C8_witness:
  "langs (ui (fetchLangs Rejected session_world)) =
     JObj [(''en'', JStr ''English''), (''fr'', JStr ''French'')] \<and>
   alerts (fetchLangs Rejected session_world) = [AudioGenerated] \<and>
   console (fetchLangs Rejected session_world) =
     [[Text ''Error fetching langs:'', Err AxiosError]] \<and>
   qaHistory (ui (fetchHistory Rejected session_world)) =
     JArr [JArr [JStr ''b?'', JStr ''2''], JArr [JStr ''a?'', JStr ''1''],
           JArr [JStr ''b?'', JStr ''2'']] \<and>
   alerts (fetchHistory Rejected session_world) = [AudioGenerated] \<and>
   console (fetchHistory Rejected session_world) =
     [[Text ''Error fetching history:'', Err AxiosError]]"
  using C8_loader_failures_are_silent [of session_world]
  by (simp add: session_world_ui session_world_rest)

text \<open>
  Claim C9 as stated fails for a successful response whose body is JSON \<^verbatim>\<open>null\<close>. Such a
  body has no \<^verbatim>\<open>langs\<close> and no \<^verbatim>\<open>qa_pairs\<close> key, but the read \<^verbatim>\<open>res.data.langs\<close>
  (\<^verbatim>\<open>res.data.qa_pairs\<close>) throws inside the \<^verbatim>\<open>try\<close> block: the \<^verbatim>\<open>catch\<close> block logs the
  TypeError, and the catalog and the history of the session stay what they were instead
  of becoming empty.
\<close>

theorem C9_null_body_keeps_old_value:
  "get_prop JNull ''langs'' = Inl TypeError \<and>
   get_prop JNull ''qa_pairs'' = Inl TypeError \<and>
   langs (ui (fetchLangs (Resolved JNull) session_world)) =
     JObj [(''en'', JStr ''English''), (''fr'', JStr ''French'')] \<and>
   langs (ui (fetchLangs (Resolved JNull) session_world)) \<noteq> JObj [] \<and>
   console (fetchLangs (Resolved JNull) session_world) =
     [[Text ''Error fetching langs:'', Err TypeError]] \<and>
   qaHistory (ui (fetchHistory (Resolved JNull) session_world)) =
     JArr [JArr [JStr ''b?'', JStr ''2''], JArr [JStr ''a?'', JStr ''1''],
           JArr [JStr ''b?'', JStr ''2'']] \<and>
   qaHistory (ui (fetchHistory (Resolved JNull) session_world)) \<noteq> JArr [] \<and>
   console (fetchHistory (Resolved JNull) session_world) =
     [[Text ''Error fetching history:'', Err TypeError]]"
  by (simp add: fetchLangs_def fetchHistory_def prim_defs Let_def session_world_ui
      session_world_rest)

text \<open>
  The bodies the amended claim is about are those on which the read of the field gives
  \<^verbatim>\<open>undefined\<close>: every body but \<^verbatim>\<open>null\<close> that is not an object holding the key.
\<close>

lemma field_missing_iff:
  "get_prop d k = Inr JUndefined \<longleftrightarrow>
     d \<noteq> JNull \<and> d \<noteq> JUndefined \<and>
     (\<forall>kvs. d = JObj kvs \<longrightarrow> map_of kvs k = None \<or> map_of kvs k = Some JUndefined)"
  by (cases d) (auto split: option.splits)

text \<open>
  Claim C9, amended. When a successful loader response has a body other than \<^verbatim>\<open>null\<close>
  without the expected field (reading the field gives \<^verbatim>\<open>undefined\<close>), nothing is logged
  or alerted and the catalog becomes the empty object, respectively the history the
  empty list.
\<close>

theorem C9_missing_field_gives_empty_value:
  "(get_prop d ''langs'' = Inr JUndefined \<longrightarrow>
      langs (ui (fetchLangs (Resolved d) w)) = JObj [] \<and>
      console (fetchLangs (Resolved d) w) = console w \<and>
      alerts (fetchLangs (Resolved d) w) = alerts w) \<and>
   (get_prop d ''qa_pairs'' = Inr JUndefined \<longrightarrow>
      qaHistory (ui (fetchHistory (Resolved d) w)) = JArr [] \<and>
      console (fetchHistory (Resolved d) w) = console w \<and>
      alerts (fetchHistory (Resolved d) w) = alerts w)"
  by (simp add: fetchLangs_def fetchHistory_def prim_defs Let_def js_or_def)

theorem C9_witness:
  "langs (ui session_world) = JObj [(''en'', JStr ''English''), (''fr'', JStr ''French'')] \<and>
   langs (ui (fetchLangs (Resolved (JObj [(''status'', JStr ''ok'')])) session_world)) = JObj [] \<and>
   qaHistory (ui (fetchHistory (Resolved (JObj [(''status'', JStr ''ok'')])) session_world)) =
     JArr [] \<and>
   console (fetchLangs (Resolved (JObj [(''status'', JStr ''ok'')])) session_world) = [] \<and>
   console (fetchHistory (Resolved (JObj [(''status'', JStr ''ok'')])) session_world) = []"
  using C9_missing_field_gives_empty_value [of "JObj [(''status'', JStr ''ok'')]" session_world]
  by (simp add: session_world_ui session_world_rest)

section \<open>Log-out, ask, audio\<close>

text \<open>
  Claim C4. A log-out removes the token from storage, empties the history, the answer
  and the audio reference, leaves the interface logged out with the log-in dialog
  open, and makes no request.
\<close>

theorem C4_logout_clears_session:
  "localStorage (step ClickLogout el eh w) = (localStorage w)(''auth_token'' := None) \<and>
   ui (step ClickLogout el eh w) =
     (ui w)\<lparr>isLoggedIn := False, showLogin := True, qaHistory := JArr [], audioUrl := None,
            answer := JStr []\<rparr> \<and>
   render (ui (step ClickLogout el eh w)) =
     \<lparr>nav = LoginButton, work_area = False, audio_src = None, login_dialog = True\<rparr> \<and>
   network (step ClickLogout el eh w) = network w \<and>
   alerts (step ClickLogout el eh w) = alerts w"
  by (simp add: step_defs handleLogout_def prim_defs render_def)

theorem C4_witness:
  "isLoggedIn (ui session_world) \<and>
   localStorage session_world ''auth_token'' = Some ''abc'' \<and>
   localStorage (step ClickLogout Rejected Rejected session_world) ''auth_token'' = None \<and>
   ui (step ClickLogout Rejected Rejected session_world) =
     \<lparr>file_st = None, filename = None, question = ''What is this document about?'',
      answer = JStr [], qaHistory = JArr [],
      langs = JObj [(''en'', JStr ''English''), (''fr'', JStr ''French'')],
      selectedLang = ''en'', audioUrl = None, dragOver = False,
      showLogin = True, isLoggedIn = False, username = ''admin'', password = ''1234''\<rparr> \<and>
   render (ui (step ClickLogout Rejected Rejected session_world)) =
     \<lparr>nav = LoginButton, work_area = False, audio_src = None, login_dialog = True\<rparr> \<and>
   length (network (step ClickLogout Rejected Rejected session_world)) = 8"
  using C4_logout_clears_session [of Rejected Rejected session_world]
  by (simp add: session_world_ui session_world_rest session_world_requests render_def)

text \<open>
  Claim C5. When the request of an ask fails, the failure alert is shown (and the error
  logged), and the component state, so the displayed answer and the history, is
  unchanged.
\<close>

theorem C5_failed_ask_keeps_answer_and_history:
  "question (ui w) \<noteq> [] \<Longrightarrow>
   ui (step (ClickAsk Rejected rh) el eh w) = ui w \<and>
   alerts (step (ClickAsk Rejected rh) el eh w) = alerts w @ [FailedToGetAnswer] \<and>
   console (step (ClickAsk Rejected rh) el eh w) =
     console w @ [[Text ''Ask failed:'', Err AxiosError]] \<and>
   map url (issued_since w (step (ClickAsk Rejected rh) el eh w)) = [''/api/answer'']"
  by (simp add: step_defs askQuestion_def prim_defs Let_def issued_since_def interceptor_fields)

theorem C5_witness:
  "answer (ui (step (ClickAsk Rejected (Resolved (JObj [(''qa_pairs'', JArr [])]))) Rejected Rejected
      session_world)) = JStr ''It is a summary.'' \<and>
   qaHistory (ui (step (ClickAsk Rejected (Resolved (JObj [(''qa_pairs'', JArr [])]))) Rejected
      Rejected session_world)) =
     JArr [JArr [JStr ''b?'', JStr ''2''], JArr [JStr ''a?'', JStr ''1''],
           JArr [JStr ''b?'', JStr ''2'']] \<and>
   alerts (step (ClickAsk Rejected (Resolved (JObj [(''qa_pairs'', JArr [])]))) Rejected Rejected
      session_world) = [AudioGenerated, FailedToGetAnswer]"
proof -
  have "question (ui session_world) \<noteq> []" by (simp add: session_world_ui)
  from C5_failed_ask_keeps_answer_and_history [OF this,
      of "Resolved (JObj [(''qa_pairs'', JArr [])])" Rejected Rejected]
  show ?thesis by (simp add: session_world_ui session_world_rest)
qed

text \<open>
  Claim C6. After two successful audio generations in a row the state holds the URL
  made by the second one, which resolves to the second payload; the audio element is
  bound to it and not to the URL of the first.
\<close>

theorem C6_second_audio_supersedes_first:
  "isLoggedIn (ui w) \<Longrightarrow>
   audioUrl (ui (step (ClickGenerate (Resolved b1)) el eh w)) =
     Some (ObjectURL (length (blob_store w))) \<and>
   audioUrl (ui (step (ClickGenerate (Resolved b2)) el' eh'
                  (step (ClickGenerate (Resolved b1)) el eh w))) =
     Some (ObjectURL (Suc (length (blob_store w)))) \<and>
   resolve_url (step (ClickGenerate (Resolved b2)) el' eh'
                  (step (ClickGenerate (Resolved b1)) el eh w))
       (ObjectURL (Suc (length (blob_store w)))) =
     Some (Blob (bytes b2) ''audio/mpeg'') \<and>
   audio_src (render (ui (step (ClickGenerate (Resolved b2)) el' eh'
                  (step (ClickGenerate (Resolved b1)) el eh w)))) =
     Some (ObjectURL (Suc (length (blob_store w)))) \<and>
   audio_src (render (ui (step (ClickGenerate (Resolved b2)) el' eh'
                  (step (ClickGenerate (Resolved b1)) el eh w)))) \<noteq>
     audioUrl (ui (step (ClickGenerate (Resolved b1)) el eh w))"
  by (simp add: step_defs generateAudio_def prim_defs Let_def render_def resolve_url_def
      nth_append)

theorem C6_witness:
  "audioUrl (ui session_world) = Some (ObjectURL 0) \<and>
   audioUrl (ui (step (ClickGenerate (Resolved (Blob [1, 2] ''x''))) Rejected Rejected
      (step (ClickGenerate (Resolved (Blob [3] ''y''))) Rejected Rejected session_world))) =
     Some (ObjectURL 2) \<and>
   resolve_url (step (ClickGenerate (Resolved (Blob [1, 2] ''x''))) Rejected Rejected
      (step (ClickGenerate (Resolved (Blob [3] ''y''))) Rejected Rejected session_world))
      (ObjectURL 2) = Some (Blob [1, 2] ''audio/mpeg'') \<and>
   audio_src (render (ui (step (ClickGenerate (Resolved (Blob [1, 2] ''x''))) Rejected Rejected
      (step (ClickGenerate (Resolved (Blob [3] ''y''))) Rejected Rejected session_world)))) =
     Some (ObjectURL 2)"
proof -
  have "isLoggedIn (ui session_world)" by (simp add: session_world_ui)
  from C6_second_audio_supersedes_first [OF this, of "Blob [3] ''y''" Rejected Rejected
      "Blob [1, 2] ''x''" Rejected Rejected]
  show ?thesis by (simp add: session_world_ui session_world_rest numeral_2_eq_2)
qed

section \<open>Loading the catalog after log-in\<close>

text \<open>
  Claim C7 does not hold of the code. In the example log-in the catalog is requested
  twice: once by \<^verbatim>\<open>handleLogin\<close> itself and once by the effect on \<^verbatim>\<open>isLoggedIn\<close>.
\<close>

theorem C7_login_loads_languages_twice:
  "map url (issued_since admin_world
     (step (ClickLogin (Resolved token_abc) (Resolved catalog_body) (Resolved history_body))
        (Resolved catalog_body) (Resolved history_body) admin_world)) =
     [''/api/login'', ''/api/langs'', ''/api/qa-history'', ''/api/langs'', ''/api/qa-history''] \<and>
   length (filter (\<lambda>c. url c = ''/api/langs'') (issued_since admin_world
     (step (ClickLogin (Resolved token_abc) (Resolved catalog_body) (Resolved history_body))
        (Resolved catalog_body) (Resolved history_body) admin_world))) = 2"
  by (simp add: step_defs flow_defs prim_defs Let_def issued_since_def interceptor_fields
      admin_world_simps initial_state_def token_abc_def catalog_body_def history_body_def)

end
